theory Spec2Isabelle
  imports Complex_Main "HOL-Library.Word"
begin

section \<open>JavaScript numbers\<close>

text \<open>
  Every quantity of the geometry core is a JavaScript number.  The model keeps the
  three non-finite values of IEEE arithmetic, because the code divides without guards
  (\<^verbatim>\<open>1 / vector.x\<close>, \<^verbatim>\<open>d.x / dist\<close>, \<^verbatim>\<open>(column << 1) / (columns - 1)\<close>)
  and its control flow depends on what a comparison with \<^verbatim>\<open>NaN\<close> or
  \<^verbatim>\<open>Infinity\<close> answers.  A finite value is a real number, and the two zeros are
  identified (a zero divisor is read as \<^verbatim>\<open>+0\<close>).  The operations of this section
  compute the exact result; the next section rounds it to double precision.
\<close>

datatype jsnum = Num real | PInf | NInf | NaN

text \<open>Unary minus.\<close>

fun js_neg :: "jsnum \<Rightarrow> jsnum" where
  "js_neg (Num a) = Num (- a)"
| "js_neg PInf = NInf"
| "js_neg NInf = PInf"
| "js_neg NaN = NaN"

text \<open>\<^verbatim>\<open>a + b\<close>: opposite infinities give \<^verbatim>\<open>NaN\<close>.\<close>

fun js_add :: "jsnum \<Rightarrow> jsnum \<Rightarrow> jsnum" where
  "js_add (Num a) (Num b) = Num (a + b)"
| "js_add NaN _ = NaN"
| "js_add _ NaN = NaN"
| "js_add PInf NInf = NaN"
| "js_add NInf PInf = NaN"
| "js_add PInf _ = PInf"
| "js_add _ PInf = PInf"
| "js_add NInf _ = NInf"
| "js_add _ NInf = NInf"

text \<open>\<^verbatim>\<open>a - b\<close>.\<close>

definition js_sub :: "jsnum \<Rightarrow> jsnum \<Rightarrow> jsnum" where
  "js_sub a b = js_add a (js_neg b)"

text \<open>\<^verbatim>\<open>a * b\<close>: zero times an infinity gives \<^verbatim>\<open>NaN\<close>.\<close>

fun js_mul :: "jsnum \<Rightarrow> jsnum \<Rightarrow> jsnum" where
  "js_mul (Num a) (Num b) = Num (a * b)"
| "js_mul NaN _ = NaN"
| "js_mul _ NaN = NaN"
| "js_mul PInf (Num b) = (if b = 0 then NaN else if 0 < b then PInf else NInf)"
| "js_mul NInf (Num b) = (if b = 0 then NaN else if 0 < b then NInf else PInf)"
| "js_mul (Num a) PInf = (if a = 0 then NaN else if 0 < a then PInf else NInf)"
| "js_mul (Num a) NInf = (if a = 0 then NaN else if 0 < a then NInf else PInf)"
| "js_mul PInf PInf = PInf"
| "js_mul PInf NInf = NInf"
| "js_mul NInf PInf = NInf"
| "js_mul NInf NInf = PInf"

text \<open>
  \<^verbatim>\<open>a / b\<close>: a finite non-zero value over zero is an infinity, zero over zero and an
  infinity over an infinity are \<^verbatim>\<open>NaN\<close>, a finite value over an infinity is zero.
\<close>

fun js_div :: "jsnum \<Rightarrow> jsnum \<Rightarrow> jsnum" where
  "js_div (Num a) (Num b) =
     (if b = 0 then (if a = 0 then NaN else if 0 < a then PInf else NInf)
      else Num (a / b))"
| "js_div NaN _ = NaN"
| "js_div _ NaN = NaN"
| "js_div (Num a) PInf = Num 0"
| "js_div (Num a) NInf = Num 0"
| "js_div PInf (Num b) = (if b < 0 then NInf else PInf)"
| "js_div NInf (Num b) = (if b < 0 then PInf else NInf)"
| "js_div _ _ = NaN"

text \<open>
  \<^verbatim>\<open>a % b\<close>: the remainder of the truncated quotient, with the sign of the dividend.
\<close>

fun js_rem :: "jsnum \<Rightarrow> jsnum \<Rightarrow> jsnum" where
  "js_rem (Num a) (Num b) =
     (if b = 0 then NaN
      else Num (a - b * of_int (if 0 \<le> a / b then \<lfloor>a / b\<rfloor> else \<lceil>a / b\<rceil>)))"
| "js_rem (Num a) PInf = Num a"
| "js_rem (Num a) NInf = Num a"
| "js_rem _ _ = NaN"

text \<open>The comparisons \<^verbatim>\<open><\<close>, \<^verbatim>\<open><=\<close>, \<^verbatim>\<open>>\<close>, \<^verbatim>\<open>>=\<close> and \<^verbatim>\<open>===\<close>: all false on \<^verbatim>\<open>NaN\<close>.\<close>

fun js_lt :: "jsnum \<Rightarrow> jsnum \<Rightarrow> bool" where
  "js_lt (Num a) (Num b) = (a < b)"
| "js_lt (Num a) PInf = True"
| "js_lt NInf (Num b) = True"
| "js_lt NInf PInf = True"
| "js_lt _ _ = False"

fun js_le :: "jsnum \<Rightarrow> jsnum \<Rightarrow> bool" where
  "js_le (Num a) (Num b) = (a \<le> b)"
| "js_le (Num a) PInf = True"
| "js_le NInf (Num b) = True"
| "js_le NInf PInf = True"
| "js_le PInf PInf = True"
| "js_le NInf NInf = True"
| "js_le _ _ = False"

definition js_gt :: "jsnum \<Rightarrow> jsnum \<Rightarrow> bool" where
  "js_gt a b = js_lt b a"

definition js_ge :: "jsnum \<Rightarrow> jsnum \<Rightarrow> bool" where
  "js_ge a b = js_le b a"

fun js_seq :: "jsnum \<Rightarrow> jsnum \<Rightarrow> bool" where
  "js_seq NaN _ = False"
| "js_seq _ NaN = False"
| "js_seq a b = (a = b)"

text \<open>\<^verbatim>\<open>Math.abs\<close>, \<^verbatim>\<open>Math.sign\<close>, \<^verbatim>\<open>Math.floor\<close>, \<^verbatim>\<open>Math.sqrt\<close>.\<close>

fun js_abs :: "jsnum \<Rightarrow> jsnum" where
  "js_abs (Num a) = Num \<bar>a\<bar>"
| "js_abs PInf = PInf"
| "js_abs NInf = PInf"
| "js_abs NaN = NaN"

fun js_sign :: "jsnum \<Rightarrow> jsnum" where
  "js_sign (Num a) = Num (sgn a)"
| "js_sign PInf = Num 1"
| "js_sign NInf = Num (- 1)"
| "js_sign NaN = NaN"

fun js_floor :: "jsnum \<Rightarrow> jsnum" where
  "js_floor (Num a) = Num (of_int \<lfloor>a\<rfloor>)"
| "js_floor PInf = PInf"
| "js_floor NInf = NInf"
| "js_floor NaN = NaN"

fun js_sqrt :: "jsnum \<Rightarrow> jsnum" where
  "js_sqrt (Num a) = (if a < 0 then NaN else Num (sqrt a))"
| "js_sqrt PInf = PInf"
| "js_sqrt NInf = NaN"
| "js_sqrt NaN = NaN"

text \<open>\<^verbatim>\<open>Math.max\<close> and \<^verbatim>\<open>Math.min\<close> of two arguments: \<^verbatim>\<open>NaN\<close> if either is.\<close>

definition js_max :: "jsnum \<Rightarrow> jsnum \<Rightarrow> jsnum" where
  "js_max a b = (if a = NaN \<or> b = NaN then NaN else if js_lt a b then b else a)"

definition js_min :: "jsnum \<Rightarrow> jsnum \<Rightarrow> jsnum" where
  "js_min a b = (if a = NaN \<or> b = NaN then NaN else if js_lt b a then b else a)"

text \<open>
  \<^verbatim>\<open>Math.clamp = function(val, min, max) { return Math.max(min, Math.min(val, max)); }\<close>
\<close>

definition clamp :: "jsnum \<Rightarrow> jsnum \<Rightarrow> jsnum \<Rightarrow> jsnum" where
  "clamp val mn mx = js_max mn (js_min val mx)"

text \<open>
  \<^verbatim>\<open>column << 1\<close> on a loop counter: the operand is taken to a 32-bit integer, shifted,
  and read back as a signed value.
\<close>

definition js_shl1 :: "nat \<Rightarrow> jsnum" where
  "js_shl1 column = Num (real_of_int (sint (push_bit 1 (word_of_nat column :: 32 word))))"


section \<open>Rounding to double precision\<close>









section \<open>types2d: points and vectors\<close>

text \<open>
  \<^verbatim>\<open>Point2D\<close> stores \<^verbatim>\<open>_x\<close> and \<^verbatim>\<open>_y\<close>; \<^verbatim>\<open>Vector2D\<close> extends it with no field of its own.
  The object literals \<^verbatim>\<open>{x: .., y: ..}\<close> of the hit descriptors have the same shape.
\<close>

record Point2D =
  pt_x :: jsnum
  pt_y :: jsnum

type_synonym Vector2D = Point2D



text \<open>
  The remaining functions of the core are written with the exact operations: what is
  proved of them below concerns \<^verbatim>\<open>NaN\<close>, the infinities, and finite values that the
  operations reach without rounding.
\<close>

definition magnitude :: "'a Point2D_scheme \<Rightarrow> jsnum" where
  "magnitude this = js_sqrt (js_add (js_mul (pt_x this) (pt_x this)) (js_mul (pt_y this) (pt_y this)))"


section \<open>colliders2d: hit descriptors\<close>

text \<open>
  The object every intersection test returns, or \<^verbatim>\<open>null\<close> (\<open>None\<close>).  Only the vector
  tests of the box set \<^verbatim>\<open>time\<close>.
\<close>

record Hit =
  delta :: Point2D
  normal :: Point2D
  pos :: Point2D
  time :: "jsnum option"

text \<open>Reading a property of \<^verbatim>\<open>null\<close> throws.\<close>

datatype error = TypeError


section \<open>colliders2d: CircleCollider\<close>

record CircleCollider = Point2D +
  radius :: jsnum


text \<open>
  \<^verbatim>\<open>intersection(x, y, radius)\<close>: \<open>dx\<close>, \<open>dy\<close> are \<^verbatim>\<open>d.x\<close>, \<^verbatim>\<open>d.y\<close>, and likewise for
  \<^verbatim>\<open>n\<close>, \<^verbatim>\<open>v\<close> and \<^verbatim>\<open>p\<close>.  The division by \<^verbatim>\<open>dist\<close> has no guard.
\<close>

definition CircleCollider_intersection ::
  "CircleCollider \<Rightarrow> jsnum \<Rightarrow> jsnum \<Rightarrow> jsnum \<Rightarrow> Hit option" where
  "CircleCollider_intersection this x y r =
     (let dx = js_sub (pt_x this) x;
          dy = js_sub (pt_y this) y;
          dist2 = js_add (js_mul dx dx) (js_mul dy dy);
          cR = js_add (radius this) r;
          r2 = js_mul cR cR
      in if js_lt dist2 r2 then
           (let dist = js_sqrt dist2;
                offset = js_sub cR dist;
                nx = js_div dx dist;
                ny = js_div dy dist;
                vx = js_mul nx offset;
                vy = js_mul ny offset;
                p_x = js_sub (pt_x this) (js_mul nx (radius this));
                p_y = js_sub (pt_y this) (js_mul ny (radius this))
            in Some \<lparr>delta = \<lparr>pt_x = js_neg vx, pt_y = js_neg vy\<rparr>,
                     normal = \<lparr>pt_x = js_neg nx, pt_y = js_neg ny\<rparr>,
                     pos = \<lparr>pt_x = p_x, pt_y = p_y\<rparr>,
                     time = None\<rparr>)
         else None)"

definition CircleCollider_circleIntersection ::
  "CircleCollider \<Rightarrow> CircleCollider \<Rightarrow> Hit option" where
  "CircleCollider_circleIntersection this circle =
     CircleCollider_intersection this (pt_x circle) (pt_y circle) (radius circle)"

text \<open>
  \<^verbatim>\<open>vectorIntersection(origin, vector, padding)\<close>: \<^verbatim>\<open>vM\<close> is zero for the zero vector,
  and the unit vector \<^verbatim>\<open>vU\<close> is then \<^verbatim>\<open>0 / 0\<close>.
\<close>

definition CircleCollider_vectorIntersection ::
  "CircleCollider \<Rightarrow> 'a Point2D_scheme \<Rightarrow> 'b Point2D_scheme \<Rightarrow> jsnum \<Rightarrow> Hit option" where
  "CircleCollider_vectorIntersection this origin vector padding =
     (let vM = magnitude vector;
          vUx = js_div (pt_x vector) vM;
          vUy = js_div (pt_y vector) vM;
          t = js_add (js_mul vUx (js_sub (pt_x this) (pt_x origin)))
                     (js_mul vUy (js_sub (pt_y this) (pt_y origin)));
          ex = js_add (js_mul t vUx) (pt_x origin);
          ey = js_add (js_mul t vUy) (pt_y origin);
          eM2 = js_add (js_mul (js_sub ex (pt_x this)) (js_sub ex (pt_x this)))
                       (js_mul (js_sub ey (pt_y this)) (js_sub ey (pt_y this)));
          r2 = js_mul (js_add (radius this) padding) (js_add (radius this) padding)
      in if js_lt eM2 r2 then
           (let dt = js_sqrt (js_sub r2 eM2);
                fx = js_add (js_mul (js_sub t dt) vUx) (pt_x origin);
                fy = js_add (js_mul (js_sub t dt) vUy) (pt_y origin);
                p2x = js_sub (js_add (pt_x origin) (pt_x vector)) (pt_x this);
                p2y = js_sub (js_add (pt_y origin) (pt_y vector)) (pt_y this)
            in if js_gt (js_add (js_mul p2x p2x) (js_mul p2y p2y)) r2 then None
               else
                 (let nx = js_div (js_sub fx (pt_x this)) (js_add (radius this) padding);
                      ny = js_div (js_sub fy (pt_y this)) (js_add (radius this) padding)
                  in Some \<lparr>delta = \<lparr>pt_x = js_sub fx (pt_x origin), pt_y = js_sub fy (pt_y origin)\<rparr>,
                           normal = \<lparr>pt_x = nx, pt_y = ny\<rparr>,
                           pos = \<lparr>pt_x = fx, pt_y = fy\<rparr>,
                           time = None\<rparr>))
         else None)"

text \<open>
  \<^verbatim>\<open>sweptCircleIntersection(circle, vector)\<close>: the moving circle is the origin of the
  vector test, its radius the padding.  There is no test for a zero vector.
\<close>

definition CircleCollider_sweptCircleIntersection ::
  "CircleCollider \<Rightarrow> CircleCollider \<Rightarrow> 'a Point2D_scheme \<Rightarrow> Hit option" where
  "CircleCollider_sweptCircleIntersection this circle vector =
     (case CircleCollider_vectorIntersection this circle vector (radius circle) of
        None \<Rightarrow> None
      | Some hit \<Rightarrow>
          Some (hit\<lparr>pos :=
            \<lparr>pt_x = js_sub (pt_x (pos hit)) (js_mul (pt_x (normal hit)) (radius circle)),
             pt_y = js_sub (pt_y (pos hit)) (js_mul (pt_y (normal hit)) (radius circle))\<rparr>\<rparr>))"


section \<open>colliders2d: AABBCollider\<close>

text \<open>
  The centre and the half-extents \<^verbatim>\<open>_rX\<close>, \<^verbatim>\<open>_rY\<close>.  \<^verbatim>\<open>BoundingBox\<close> of types2d stores
  the same four fields and is the same record.
\<close>

record AABBCollider = Point2D +
  rX :: jsnum
  rY :: jsnum

type_synonym BoundingBox = AABBCollider

text \<open>\<^verbatim>\<open>intersection(x, y, rX, rY)\<close>; \<^verbatim>\<open>Math.sign\<close> of a zero offset is zero.\<close>

definition AABBCollider_intersection ::
  "AABBCollider \<Rightarrow> jsnum \<Rightarrow> jsnum \<Rightarrow> jsnum \<Rightarrow> jsnum \<Rightarrow> Hit option" where
  "AABBCollider_intersection this x y rx ry =
     (let dX = js_sub x (pt_x this);
          pX = js_sub (js_add rx (rX this)) (js_abs dX)
      in if js_le pX (Num 0) then None
         else
           (let dY = js_sub y (pt_y this);
                pY = js_sub (js_add ry (rY this)) (js_abs dY)
            in if js_le pY (Num 0) then None
               else if js_le pX pY then
                 (let sX = js_sign dX
                  in Some \<lparr>delta = \<lparr>pt_x = js_mul pX sX, pt_y = Num 0\<rparr>,
                           normal = \<lparr>pt_x = sX, pt_y = Num 0\<rparr>,
                           pos = \<lparr>pt_x = js_add (pt_x this) (js_mul (rX this) sX), pt_y = y\<rparr>,
                           time = None\<rparr>)
               else
                 (let sY = js_sign dY
                  in Some \<lparr>delta = \<lparr>pt_x = Num 0, pt_y = js_mul pY sY\<rparr>,
                           normal = \<lparr>pt_x = Num 0, pt_y = sY\<rparr>,
                           pos = \<lparr>pt_x = x, pt_y = js_add (pt_y this) (js_mul (rY this) sY)\<rparr>,
                           time = None\<rparr>)))"

definition AABBCollider_boxIntersection :: "AABBCollider \<Rightarrow> AABBCollider \<Rightarrow> Hit option" where
  "AABBCollider_boxIntersection this box =
     AABBCollider_intersection this (pt_x box) (pt_y box) (rX box) (rY box)"

text \<open>
  The per-axis constants of the slab test.  \<^verbatim>\<open>AABBCollider.vectorIntersection\<close> and
  \<^verbatim>\<open>BoundingBox.vectorIntersection\<close> compute them with the same text:
  \<^verbatim>\<open>nearTimeX = (this._x - signX * (this._rX + pX) - origin.x) * scaleX\<close>, and so on.
\<close>

definition scaleX :: "'a Point2D_scheme \<Rightarrow> jsnum" where
  "scaleX vector = js_div (Num 1) (pt_x vector)"

definition scaleY :: "'a Point2D_scheme \<Rightarrow> jsnum" where
  "scaleY vector = js_div (Num 1) (pt_y vector)"

definition signX :: "'a Point2D_scheme \<Rightarrow> jsnum" where
  "signX vector = js_sign (scaleX vector)"

definition signY :: "'a Point2D_scheme \<Rightarrow> jsnum" where
  "signY vector = js_sign (scaleY vector)"

definition nearTimeX ::
  "AABBCollider \<Rightarrow> 'a Point2D_scheme \<Rightarrow> 'b Point2D_scheme \<Rightarrow> jsnum \<Rightarrow> jsnum" where
  "nearTimeX this origin vector pX =
     js_mul (js_sub (js_sub (pt_x this) (js_mul (signX vector) (js_add (rX this) pX)))
                    (pt_x origin))
            (scaleX vector)"

definition nearTimeY ::
  "AABBCollider \<Rightarrow> 'a Point2D_scheme \<Rightarrow> 'b Point2D_scheme \<Rightarrow> jsnum \<Rightarrow> jsnum" where
  "nearTimeY this origin vector pY =
     js_mul (js_sub (js_sub (pt_y this) (js_mul (signY vector) (js_add (rY this) pY)))
                    (pt_y origin))
            (scaleY vector)"

definition farTimeX ::
  "AABBCollider \<Rightarrow> 'a Point2D_scheme \<Rightarrow> 'b Point2D_scheme \<Rightarrow> jsnum \<Rightarrow> jsnum" where
  "farTimeX this origin vector pX =
     js_mul (js_sub (js_add (pt_x this) (js_mul (signX vector) (js_add (rX this) pX)))
                    (pt_x origin))
            (scaleX vector)"

definition farTimeY ::
  "AABBCollider \<Rightarrow> 'a Point2D_scheme \<Rightarrow> 'b Point2D_scheme \<Rightarrow> jsnum \<Rightarrow> jsnum" where
  "farTimeY this origin vector pY =
     js_mul (js_sub (js_add (pt_y this) (js_mul (signY vector) (js_add (rY this) pY)))
                    (pt_y origin))
            (scaleY vector)"

text \<open>\<^verbatim>\<open>nearTime = nearTimeX > nearTimeY ? nearTimeX : nearTimeY\<close>, in both classes.\<close>

definition nearTime ::
  "AABBCollider \<Rightarrow> 'a Point2D_scheme \<Rightarrow> 'b Point2D_scheme \<Rightarrow> jsnum \<Rightarrow> jsnum \<Rightarrow> jsnum" where
  "nearTime this origin vector pX pY =
     (if js_gt (nearTimeX this origin vector pX) (nearTimeY this origin vector pY)
      then nearTimeX this origin vector pX else nearTimeY this origin vector pY)"

text \<open>
  \<^verbatim>\<open>AABBCollider\<close>: \<^verbatim>\<open>farTime = farTimeX < farTimeY ? farTimeX : farTimeY\<close>.
\<close>

definition AABBCollider_farTime ::
  "AABBCollider \<Rightarrow> 'a Point2D_scheme \<Rightarrow> 'b Point2D_scheme \<Rightarrow> jsnum \<Rightarrow> jsnum \<Rightarrow> jsnum" where
  "AABBCollider_farTime this origin vector pX pY =
     (if js_lt (farTimeX this origin vector pX) (farTimeY this origin vector pY)
      then farTimeX this origin vector pX else farTimeY this origin vector pY)"

text \<open>
  \<^verbatim>\<open>BoundingBox\<close>: \<^verbatim>\<open>farTime = farTimeX > farTimeY ? farTimeX : farTimeY\<close>.
\<close>

definition BoundingBox_farTime ::
  "BoundingBox \<Rightarrow> 'a Point2D_scheme \<Rightarrow> 'b Point2D_scheme \<Rightarrow> jsnum \<Rightarrow> jsnum \<Rightarrow> jsnum" where
  "BoundingBox_farTime this origin vector pX pY =
     (if js_gt (farTimeX this origin vector pX) (farTimeY this origin vector pY)
      then farTimeX this origin vector pX else farTimeY this origin vector pY)"

text \<open>
  What both classes build once neither rejection applies: \<^verbatim>\<open>hit.time\<close>, \<^verbatim>\<open>hit.normal\<close>,
  \<^verbatim>\<open>hit.delta\<close> and \<^verbatim>\<open>hit.pos\<close>.
\<close>

definition vectorHit ::
  "AABBCollider \<Rightarrow> 'a Point2D_scheme \<Rightarrow> 'b Point2D_scheme \<Rightarrow> jsnum \<Rightarrow> jsnum \<Rightarrow> Hit" where
  "vectorHit this origin vector pX pY =
     (let t = clamp (nearTime this origin vector pX pY) (Num 0) (Num 1)
      in \<lparr>delta = \<lparr>pt_x = js_mul (js_sub (Num 1) t) (js_neg (pt_x vector)),
                   pt_y = js_mul (js_sub (Num 1) t) (js_neg (pt_y vector))\<rparr>,
          normal = (if js_gt (nearTimeX this origin vector pX) (nearTimeY this origin vector pY)
                    then \<lparr>pt_x = js_neg (signX vector), pt_y = Num 0\<rparr>
                    else \<lparr>pt_x = Num 0, pt_y = js_neg (signY vector)\<rparr>),
          pos = \<lparr>pt_x = js_add (pt_x origin) (js_mul (pt_x vector) t),
                 pt_y = js_add (pt_y origin) (js_mul (pt_y vector) t)\<rparr>,
          time = Some t\<rparr>)"

definition AABBCollider_vectorIntersection ::
  "AABBCollider \<Rightarrow> 'a Point2D_scheme \<Rightarrow> 'b Point2D_scheme \<Rightarrow> jsnum \<Rightarrow> jsnum \<Rightarrow> Hit option" where
  "AABBCollider_vectorIntersection this origin vector pX pY =
     (if js_gt (nearTimeX this origin vector pX) (farTimeY this origin vector pY)
         \<or> js_gt (nearTimeY this origin vector pY) (farTimeX this origin vector pX)
      then None
      else if js_ge (nearTime this origin vector pX pY) (Num 1)
              \<or> js_le (AABBCollider_farTime this origin vector pX pY) (Num 0)
      then None
      else Some (vectorHit this origin vector pX pY))"

definition BoundingBox_vectorIntersection ::
  "BoundingBox \<Rightarrow> 'a Point2D_scheme \<Rightarrow> 'b Point2D_scheme \<Rightarrow> jsnum \<Rightarrow> jsnum \<Rightarrow> Hit option" where
  "BoundingBox_vectorIntersection this origin vector pX pY =
     (if js_gt (nearTimeX this origin vector pX) (farTimeY this origin vector pY)
         \<or> js_gt (nearTimeY this origin vector pY) (farTimeX this origin vector pX)
      then None
      else if js_ge (nearTime this origin vector pX pY) (Num 1)
              \<or> js_le (BoundingBox_farTime this origin vector pX pY) (Num 0)
      then None
      else Some (vectorHit this origin vector pX pY))"

text \<open>
  What a call passes where the callee expects a number: a number, nothing
  (\<^verbatim>\<open>undefined\<close>), or an object.  In arithmetic the last two read as \<^verbatim>\<open>NaN\<close>.
\<close>

datatype jsarg = JNumber jsnum | JUndefined | JObject

fun ToNumber :: "jsarg \<Rightarrow> jsnum" where
  "ToNumber (JNumber n) = n"
| "ToNumber JUndefined = NaN"
| "ToNumber JObject = NaN"

text \<open>
  \<^verbatim>\<open>sweptBoxIntersection(box, vector)\<close>.  For the zero vector the source calls
  \<^verbatim>\<open>this.intersection(box)\<close>, the four-parameter \<^verbatim>\<open>intersection(x, y, rX, rY)\<close> above: \<^verbatim>\<open>x\<close> is
  bound to the collider object and \<^verbatim>\<open>y\<close>, \<^verbatim>\<open>rX\<close>, \<^verbatim>\<open>rY\<close> to \<^verbatim>\<open>undefined\<close>.  (The descriptor
  that comes back carries the object itself in \<^verbatim>\<open>pos.x\<close>; the model records its numeric
  reading.)
\<close>

definition AABBCollider_sweptBoxIntersection ::
  "AABBCollider \<Rightarrow> AABBCollider \<Rightarrow> 'a Point2D_scheme \<Rightarrow> Hit option" where
  "AABBCollider_sweptBoxIntersection this box vector =
     (if js_seq (pt_x vector) (Num 0) \<and> js_seq (pt_y vector) (Num 0) then
        AABBCollider_intersection this (ToNumber JObject) (ToNumber JUndefined)
          (ToNumber JUndefined) (ToNumber JUndefined)
      else
        (case AABBCollider_vectorIntersection this box vector (rX box) (rY box) of
           None \<Rightarrow> None
         | Some hit \<Rightarrow>
             Some (hit\<lparr>delta := \<lparr>pt_x = js_add (pt_x (delta hit)) (pt_x vector),
                                  pt_y = js_add (pt_y (delta hit)) (pt_y vector)\<rparr>\<rparr>)))"

text \<open>
  \<^verbatim>\<open>CircleCollider.boxIntersection(box)\<close>.  \<open>cx\<close>, \<open>cy\<close> are \<^verbatim>\<open>c\<close>, and \<open>cPx\<close>, \<open>cPy\<close> are
  \<^verbatim>\<open>cP\<close>.  In the branch for a centre inside the box, both \<^verbatim>\<open>hit.pos.x\<close> and
  \<^verbatim>\<open>hit.delta.x\<close> throw when the test before them returned \<^verbatim>\<open>null\<close>.
\<close>

definition CircleCollider_boxIntersection ::
  "CircleCollider \<Rightarrow> AABBCollider \<Rightarrow> error + Hit option" where
  "CircleCollider_boxIntersection this box =
     (let rx = rX box;
          ry = rY box;
          dx = js_sub (pt_x this) (pt_x box);
          dy = js_sub (pt_y this) (pt_y box);
          cx = clamp dx (js_neg rx) rx;
          cy = clamp dy (js_neg ry) ry;
          cPx = js_add (pt_x box) cx;
          cPy = js_add (pt_y box) cy
      in if js_seq cPx (pt_x this) \<and> js_seq cPy (pt_y this) then
           (let bw = js_mul rx (Num 2);
                bh = js_mul ry (Num 2)
            in case AABBCollider_intersection box cPx cPy (Num 1) (Num 1) of
                 None \<Rightarrow> Inl TypeError
               | Some hit \<Rightarrow>
                   (let cPx' = js_sub (pt_x (pos hit)) (js_mul bw (pt_x (normal hit)));
                        cPy' = js_sub (pt_y (pos hit)) (js_mul bh (pt_y (normal hit)))
                    in case CircleCollider_intersection this cPx' cPy' (Num 0) of
                         None \<Rightarrow> Inl TypeError
                       | Some hit' \<Rightarrow>
                           Inr (Some (hit'\<lparr>delta :=
                             \<lparr>pt_x = js_add (pt_x (delta hit')) (js_mul bw (pt_x (normal hit'))),
                              pt_y = js_add (pt_y (delta hit')) (js_mul bh (pt_y (normal hit')))\<rparr>\<rparr>))))
         else Inr (CircleCollider_intersection this cPx cPy (Num 0)))"


section \<open>tilemap2d and camera2d\<close>

record Tile2D =
  tile_type :: int
  blocking :: bool
  opaque :: bool

text \<open>
  The map is known to the raycaster through \<^verbatim>\<open>map.getTile(mapPosX, mapPosY)\<close> alone; it is
  a parameter here, a function from the two cell coordinates to a tile.
\<close>

type_synonym TileMap2D = "jsnum \<Rightarrow> jsnum \<Rightarrow> Tile2D"

record Ray2D =
  ray_origin :: Point2D
  ray_vector :: Vector2D

text \<open>
  \<^verbatim>\<open>constructor(origin, vector) {
    this._origin = new Point2D(origin.x, origin.y);
    this._vector = new Vector2D(origin.x, origin.y);
  }\<close>
\<close>

definition Ray2D_new :: "'a Point2D_scheme \<Rightarrow> 'b Point2D_scheme \<Rightarrow> Ray2D" where
  "Ray2D_new origin vector =
     \<lparr>ray_origin = \<lparr>pt_x = pt_x origin, pt_y = pt_y origin\<rparr>,
      ray_vector = \<lparr>pt_x = pt_x origin, pt_y = pt_y origin\<rparr>\<rparr>"

text \<open>The descriptor \<^verbatim>\<open>{tile, offset, axis, distance}\<close>, and the sentinel \<^verbatim>\<open>-1\<close>.\<close>

record RayHit =
  hit_tile :: Tile2D
  hit_offset :: jsnum
  hit_axis :: string
  hit_distance :: jsnum

datatype CastResult = NoHit | Found RayHit

definition calcDistance :: "jsnum \<Rightarrow> jsnum \<Rightarrow> jsnum \<Rightarrow> jsnum \<Rightarrow> jsnum" where
  "calcDistance p origin step vector =
     js_div (js_add (js_sub p origin) (js_div (js_sub (Num 1) step) (Num 2))) vector"

definition calcOffset :: "jsnum \<Rightarrow> jsnum \<Rightarrow> jsnum \<Rightarrow> jsnum \<Rightarrow> jsnum" where
  "calcOffset p origin distance vector =
     js_add (js_add p (js_rem origin (Num 1))) (js_mul distance vector)"

text \<open>
  The casting loop \<^verbatim>\<open>for (let i = 0; i < range; i++)\<close>, by the number of iterations
  left.  The first eight arguments are the constants of the cast.
\<close>

fun cast_loop ::
  "TileMap2D \<Rightarrow> jsnum \<Rightarrow> jsnum \<Rightarrow> jsnum \<Rightarrow> jsnum \<Rightarrow> jsnum \<Rightarrow> jsnum \<Rightarrow> jsnum \<Rightarrow> jsnum
   \<Rightarrow> nat \<Rightarrow> jsnum \<Rightarrow> jsnum \<Rightarrow> jsnum \<Rightarrow> jsnum \<Rightarrow> CastResult" where
  "cast_loop getTile originX originY vectorX vectorY rayDeltaX rayDeltaY rayStepX rayStepY
     0 stepDistX stepDistY mapPosX mapPosY = NoHit"
| "cast_loop getTile originX originY vectorX vectorY rayDeltaX rayDeltaY rayStepX rayStepY
     (Suc n) stepDistX stepDistY mapPosX mapPosY =
     (if js_lt stepDistX stepDistY then
        (let stepDistX' = js_add stepDistX rayDeltaX;
             mapPosX' = js_add mapPosX rayStepX;
             tile = getTile mapPosX' mapPosY
         in if blocking tile then
              (let distance = calcDistance mapPosX' originX rayStepX vectorX;
                   offset = calcOffset mapPosY originY distance vectorY
               in Found \<lparr>hit_tile = tile, hit_offset = offset, hit_axis = ''x'',
                         hit_distance = distance\<rparr>)
            else cast_loop getTile originX originY vectorX vectorY rayDeltaX rayDeltaY
                   rayStepX rayStepY n stepDistX' stepDistY mapPosX' mapPosY)
      else
        (let stepDistY' = js_add stepDistY rayDeltaY;
             mapPosY' = js_add mapPosY rayStepY;
             tile = getTile mapPosX mapPosY'
         in if blocking tile then
              (let distance = calcDistance mapPosY' originY rayStepY vectorY;
                   offset = calcOffset mapPosX originX distance vectorX
               in Found \<lparr>hit_tile = tile, hit_offset = offset, hit_axis = ''y'',
                         hit_distance = distance\<rparr>)
            else cast_loop getTile originX originY vectorX vectorY rayDeltaX rayDeltaY
                   rayStepX rayStepY n stepDistX stepDistY' mapPosX mapPosY'))"

text \<open>
  \<^verbatim>\<open>cast(map, range)\<close>.  \<^verbatim>\<open>range\<close> is documented as the maximum number of steps; the
  model takes it as a natural number, the count of iterations of the loop.
\<close>

definition cast :: "Ray2D \<Rightarrow> TileMap2D \<Rightarrow> nat \<Rightarrow> CastResult" where
  "cast this getTile range' =
     (let originX = pt_x (ray_origin this);
          originY = pt_y (ray_origin this);
          vectorX = pt_x (ray_vector this);
          vectorY = pt_y (ray_vector this);
          rayDeltaX = js_abs (js_div (Num 1) vectorX);
          rayDeltaY = js_abs (js_div (Num 1) vectorY);
          mapPosX = js_floor originX;
          mapPosY = js_floor originY;
          rayStepX = (if js_lt vectorX (Num 0) then Num (- 1) else Num 1);
          stepDistX = (if js_lt vectorX (Num 0)
                       then js_mul (js_sub originX mapPosX) rayDeltaX
                       else js_mul (js_sub (js_add mapPosX (Num 1)) originX) rayDeltaX);
          rayStepY = (if js_lt vectorY (Num 0) then Num (- 1) else Num 1);
          stepDistY = (if js_lt vectorY (Num 0)
                       then js_mul (js_sub originY mapPosY) rayDeltaY
                       else js_mul (js_sub (js_add mapPosY (Num 1)) originY) rayDeltaY)
      in cast_loop getTile originX originY vectorX vectorY rayDeltaX rayDeltaY
           rayStepX rayStepY range' stepDistX stepDistY mapPosX mapPosY)"

text \<open>
  The camera.  \<^verbatim>\<open>_scene\<close> is \<^verbatim>\<open>new Array(columns)\<close>: a slot is empty until a cast fills
  it, and the number of columns is the length of the array.
\<close>

record RayCamera2D =
  cam_position :: Point2D
  cam_direction :: Vector2D
  cam_fov :: jsnum
  cam_range :: nat
  cam_scene :: "CastResult option list"

text \<open>
  \<^verbatim>\<open>constructor(position, direction, columns, fov = 1.57079632679, range = 15)\<close>; the model
  takes the last two arguments explicitly.
\<close>

definition RayCamera2D_new ::
  "'a Point2D_scheme \<Rightarrow> 'b Point2D_scheme \<Rightarrow> nat \<Rightarrow> jsnum \<Rightarrow> nat \<Rightarrow> RayCamera2D" where
  "RayCamera2D_new position direction columns fov range' =
     \<lparr>cam_position = \<lparr>pt_x = pt_x position, pt_y = pt_y position\<rparr>,
      cam_direction = \<lparr>pt_x = pt_x direction, pt_y = pt_y direction\<rparr>,
      cam_fov = fov,
      cam_range = range',
      cam_scene = replicate columns None\<rparr>"

text \<open>
  The two assignments to \<^verbatim>\<open>ray.vector\<close> in the body of the column loop:
  \<^verbatim>\<open>let offset = (( (column << 1) / (columns - 1) ) - 1) * halfFOV;
  ray.vector.x = dirX - offset * dirY;
  ray.vector.y = dirY - offset * -dirX;\<close>
\<close>

definition columnOffset :: "jsnum \<Rightarrow> nat \<Rightarrow> nat \<Rightarrow> jsnum" where
  "columnOffset halfFOV columns column =
     js_mul (js_sub (js_div (js_shl1 column) (js_sub (Num (real columns)) (Num 1))) (Num 1))
            halfFOV"

definition columnRay :: "Ray2D \<Rightarrow> jsnum \<Rightarrow> nat \<Rightarrow> jsnum \<Rightarrow> jsnum \<Rightarrow> nat \<Rightarrow> Ray2D" where
  "columnRay ray halfFOV columns dirX dirY column =
     (let offset = columnOffset halfFOV columns column
      in ray\<lparr>ray_vector := \<lparr>pt_x = js_sub dirX (js_mul offset dirY),
                              pt_y = js_sub dirY (js_mul offset (js_neg dirX))\<rparr>\<rparr>)"

text \<open>
  The column loop \<^verbatim>\<open>for (let column = 0; column < columns; column++)\<close>, by the number of
  columns left; it threads the one ray it mutates and the scene it fills.
\<close>

fun rayCast_loop ::
  "TileMap2D \<Rightarrow> nat \<Rightarrow> jsnum \<Rightarrow> nat \<Rightarrow> jsnum \<Rightarrow> jsnum
   \<Rightarrow> nat \<Rightarrow> nat \<Rightarrow> Ray2D \<Rightarrow> CastResult option list \<Rightarrow> CastResult option list" where
  "rayCast_loop getTile range' halfFOV columns dirX dirY 0 column ray scene = scene"
| "rayCast_loop getTile range' halfFOV columns dirX dirY (Suc n) column ray scene =
     (let ray' = columnRay ray halfFOV columns dirX dirY column;
          scene' = scene[column := Some (cast ray' getTile range')]
      in rayCast_loop getTile range' halfFOV columns dirX dirY n (Suc column) ray' scene')"

definition rayCast :: "RayCamera2D \<Rightarrow> TileMap2D \<Rightarrow> RayCamera2D" where
  "rayCast this getTile =
     (let halfFOV = js_div (cam_fov this) (Num 2);
          columns = length (cam_scene this);
          dirX = pt_x (cam_direction this);
          dirY = pt_y (cam_direction this);
          ray = Ray2D_new (cam_position this) (cam_direction this)
      in this\<lparr>cam_scene :=
           rayCast_loop getTile (cam_range this) halfFOV columns dirX dirY
             columns 0 ray (cam_scene this)\<rparr>)"


text \<open>
  Two maps to cast through: one with no blocking tile, and one whose only blocking tile
  is the cell (3, 0).
\<close>

definition openMap :: TileMap2D where
  "openMap mx my = \<lparr>tile_type = 0, blocking = False, opaque = False\<rparr>"

definition wallMap :: TileMap2D where
  "wallMap mx my =
     (if mx = Num 3 \<and> my = Num 0 then \<lparr>tile_type = 1, blocking = True, opaque = True\<rparr>
      else \<lparr>tile_type = 0, blocking = False, opaque = False\<rparr>)"


section \<open>Facts about the arithmetic\<close>




























lemmas js_defs = js_sub_def js_gt_def js_ge_def js_max_def js_min_def clamp_def

lemmas slab_defs = nearTimeX_def nearTimeY_def farTimeX_def farTimeY_def nearTime_def
  AABBCollider_farTime_def BoundingBox_farTime_def scaleX_def scaleY_def signX_def signY_def

text \<open>\<^verbatim>\<open>NaN\<close> propagates through the right operand as through the left.\<close>

lemma js_add_NaN_right [simp]: "js_add a NaN = NaN"
  by (cases a) simp_all

lemma js_mul_NaN_right [simp]: "js_mul a NaN = NaN"
  by (cases a) simp_all

lemma js_div_NaN_right [simp]: "js_div a NaN = NaN"
  by (cases a) simp_all

lemma js_lt_NaN_right [simp]: "js_lt a NaN = False"
  by (cases a) simp_all

lemma js_le_NaN_right [simp]: "js_le a NaN = False"
  by (cases a) simp_all

text \<open>On a map with no blocking tile the casting loop runs out of steps.\<close>

lemma cast_loop_never_blocking:
  "(\<And>mx my. \<not> blocking (getTile mx my)) \<Longrightarrow>
   cast_loop getTile oX oY vX vY dX dY sX sY n sdx sdy mx my = NoHit"
  by (induction n arbitrary: sdx sdy mx my) (simp_all add: Let_def)

text \<open>
  The static box test returns \<^verbatim>\<open>null\<close> exactly when one of the two penetrations is at
  most zero.
\<close>

lemma boxIntersection_None_iff:
  "(AABBCollider_boxIntersection A B = None)
   = (js_le (js_sub (js_add (rX B) (rX A)) (js_abs (js_sub (pt_x B) (pt_x A)))) (Num 0)
      \<or> js_le (js_sub (js_add (rY B) (rY A)) (js_abs (js_sub (pt_y B) (pt_y A)))) (Num 0))"
  by (simp add: AABBCollider_boxIntersection_def AABBCollider_intersection_def Let_def)

text \<open>
  The static box test away from its degenerate case: for finite boxes whose centres
  differ in \<open>x\<close> and whose \<open>x\<close> penetration is the smaller one, \<^verbatim>\<open>delta\<close> lies on the \<open>x\<close>
  axis with the penetration as its length, and moving the second box by it leaves the
  two boxes touching in \<open>x\<close>.
\<close>

lemma boxIntersection_resolves_x:
  assumes "b_x \<noteq> a_x"
    and "0 < (b_rx + a_rx) - \<bar>b_x - a_x\<bar>"
    and "(b_rx + a_rx) - \<bar>b_x - a_x\<bar> \<le> (b_ry + a_ry) - \<bar>b_y - a_y\<bar>"
  shows "AABBCollider_boxIntersection
           \<lparr>pt_x = Num a_x, pt_y = Num a_y, rX = Num a_rx, rY = Num a_ry\<rparr>
           \<lparr>pt_x = Num b_x, pt_y = Num b_y, rX = Num b_rx, rY = Num b_ry\<rparr>
         = Some \<lparr>delta = \<lparr>pt_x = Num (((b_rx + a_rx) - \<bar>b_x - a_x\<bar>) * sgn (b_x - a_x)), pt_y = Num 0\<rparr>,
                 normal = \<lparr>pt_x = Num (sgn (b_x - a_x)), pt_y = Num 0\<rparr>,
                 pos = \<lparr>pt_x = Num (a_x + a_rx * sgn (b_x - a_x)), pt_y = Num b_y\<rparr>,
                 time = None\<rparr>"
    and "\<bar>(b_x + ((b_rx + a_rx) - \<bar>b_x - a_x\<bar>) * sgn (b_x - a_x)) - a_x\<bar> = b_rx + a_rx"
proof -
  show "AABBCollider_boxIntersection
           \<lparr>pt_x = Num a_x, pt_y = Num a_y, rX = Num a_rx, rY = Num a_ry\<rparr>
           \<lparr>pt_x = Num b_x, pt_y = Num b_y, rX = Num b_rx, rY = Num b_ry\<rparr>
         = Some \<lparr>delta = \<lparr>pt_x = Num (((b_rx + a_rx) - \<bar>b_x - a_x\<bar>) * sgn (b_x - a_x)), pt_y = Num 0\<rparr>,
                 normal = \<lparr>pt_x = Num (sgn (b_x - a_x)), pt_y = Num 0\<rparr>,
                 pos = \<lparr>pt_x = Num (a_x + a_rx * sgn (b_x - a_x)), pt_y = Num b_y\<rparr>,
                 time = None\<rparr>"
    using assms
    by (simp add: AABBCollider_boxIntersection_def AABBCollider_intersection_def Let_def js_defs)
  show "\<bar>(b_x + ((b_rx + a_rx) - \<bar>b_x - a_x\<bar>) * sgn (b_x - a_x)) - a_x\<bar> = b_rx + a_rx"
  proof (cases "a_x < b_x")
    case True
    with assms(2) show ?thesis by (simp add: sgn_if)
  next
    case False
    with assms(1,2) show ?thesis by (simp add: sgn_if)
  qed
qed

text \<open>The same on the \<open>y\<close> axis, when the \<open>y\<close> penetration is strictly the smaller one.\<close>

lemma boxIntersection_resolves_y:
  assumes "b_y \<noteq> a_y"
    and "0 < (b_ry + a_ry) - \<bar>b_y - a_y\<bar>"
    and "(b_ry + a_ry) - \<bar>b_y - a_y\<bar> < (b_rx + a_rx) - \<bar>b_x - a_x\<bar>"
  shows "AABBCollider_boxIntersection
           \<lparr>pt_x = Num a_x, pt_y = Num a_y, rX = Num a_rx, rY = Num a_ry\<rparr>
           \<lparr>pt_x = Num b_x, pt_y = Num b_y, rX = Num b_rx, rY = Num b_ry\<rparr>
         = Some \<lparr>delta = \<lparr>pt_x = Num 0, pt_y = Num (((b_ry + a_ry) - \<bar>b_y - a_y\<bar>) * sgn (b_y - a_y))\<rparr>,
                 normal = \<lparr>pt_x = Num 0, pt_y = Num (sgn (b_y - a_y))\<rparr>,
                 pos = \<lparr>pt_x = Num b_x, pt_y = Num (a_y + a_ry * sgn (b_y - a_y))\<rparr>,
                 time = None\<rparr>"
    and "\<bar>(b_y + ((b_ry + a_ry) - \<bar>b_y - a_y\<bar>) * sgn (b_y - a_y)) - a_y\<bar> = b_ry + a_ry"
proof -
  show "AABBCollider_boxIntersection
           \<lparr>pt_x = Num a_x, pt_y = Num a_y, rX = Num a_rx, rY = Num a_ry\<rparr>
           \<lparr>pt_x = Num b_x, pt_y = Num b_y, rX = Num b_rx, rY = Num b_ry\<rparr>
         = Some \<lparr>delta = \<lparr>pt_x = Num 0, pt_y = Num (((b_ry + a_ry) - \<bar>b_y - a_y\<bar>) * sgn (b_y - a_y))\<rparr>,
                 normal = \<lparr>pt_x = Num 0, pt_y = Num (sgn (b_y - a_y))\<rparr>,
                 pos = \<lparr>pt_x = Num b_x, pt_y = Num (a_y + a_ry * sgn (b_y - a_y))\<rparr>,
                 time = None\<rparr>"
    using assms
    by (simp add: AABBCollider_boxIntersection_def AABBCollider_intersection_def Let_def js_defs)
  show "\<bar>(b_y + ((b_ry + a_ry) - \<bar>b_y - a_y\<bar>) * sgn (b_y - a_y)) - a_y\<bar> = b_ry + a_ry"
  proof (cases "a_y < b_y")
    case True
    with assms(2) show ?thesis by (simp add: sgn_if)
  next
    case False
    with assms(1,2) show ?thesis by (simp add: sgn_if)
  qed
qed


section \<open>Claims\<close>

text \<open>
  C1.  On every map with no blocking tile, \<^verbatim>\<open>cast\<close> with range 15 returns the
  sentinel, whatever the ray.  On every map whose only blocking tile is the cell (3, 0),
  the ray with origin (0.5, 0.5) and direction vector (1, 0) returns the descriptor with
  that cell's tile, axis \<^verbatim>\<open>'x'\<close> and distance 2.5 (and offset 0.5).
\<close>

theorem cast_open_map_and_single_wall:
  "((\<forall>mx my. \<not> blocking (getTile mx my)) \<longrightarrow> cast ray getTile 15 = NoHit)
   \<and> ((\<forall>mx my. blocking (getTile' mx my) = (mx = Num 3 \<and> my = Num 0)) \<longrightarrow>
        cast \<lparr>ray_origin = \<lparr>pt_x = Num (1 / 2), pt_y = Num (1 / 2)\<rparr>,
              ray_vector = \<lparr>pt_x = Num 1, pt_y = Num 0\<rparr>\<rparr> getTile' 15
        = Found \<lparr>hit_tile = getTile' (Num 3) (Num 0), hit_offset = Num (1 / 2),
                  hit_axis = ''x'', hit_distance = Num (5 / 2)\<rparr>)"
proof (intro conjI impI)
  assume "\<forall>mx my. \<not> blocking (getTile mx my)"
  then show "cast ray getTile 15 = NoHit"
    unfolding cast_def Let_def by (intro cast_loop_never_blocking) simp
next
  assume wall: "\<forall>mx my. blocking (getTile' mx my) = (mx = Num 3 \<and> my = Num 0)"
  show "cast \<lparr>ray_origin = \<lparr>pt_x = Num (1 / 2), pt_y = Num (1 / 2)\<rparr>,
              ray_vector = \<lparr>pt_x = Num 1, pt_y = Num 0\<rparr>\<rparr> getTile' 15
        = Found \<lparr>hit_tile = getTile' (Num 3) (Num 0), hit_offset = Num (1 / 2),
                  hit_axis = ''x'', hit_distance = Num (5 / 2)\<rparr>"
    by (simp add: cast_def Let_def js_defs eval_nat_numeral calcDistance_def calcOffset_def wall)
qed

theorem cast_open_map_and_single_wall_witness:
  "cast \<lparr>ray_origin = \<lparr>pt_x = Num (1 / 2), pt_y = Num (1 / 2)\<rparr>,
         ray_vector = \<lparr>pt_x = Num 1, pt_y = Num 0\<rparr>\<rparr> openMap 15 = NoHit
   \<and> cast \<lparr>ray_origin = \<lparr>pt_x = Num (1 / 2), pt_y = Num (1 / 2)\<rparr>,
           ray_vector = \<lparr>pt_x = Num 1, pt_y = Num 0\<rparr>\<rparr> wallMap 15
     = Found \<lparr>hit_tile = \<lparr>tile_type = 1, blocking = True, opaque = True\<rparr>,
               hit_offset = Num (1 / 2), hit_axis = ''x'', hit_distance = Num (5 / 2)\<rparr>"
  using cast_open_map_and_single_wall
    [of openMap "\<lparr>ray_origin = \<lparr>pt_x = Num (1 / 2), pt_y = Num (1 / 2)\<rparr>,
         ray_vector = \<lparr>pt_x = Num 1, pt_y = Num 0\<rparr>\<rparr>" wallMap]
  by (simp add: openMap_def wallMap_def)

text \<open>
  C2.  With a scene of one column, the offset of column 0 is \<^verbatim>\<open>(0 / 0 - 1) * halfFOV\<close>:
  both components of the direction the column is cast with are \<^verbatim>\<open>NaN\<close>, for every
  heading and every field of view.  A camera at (0.5, 0.5) heading (1, 0) on the map with
  the wall at (3, 0) fills its one column with the sentinel, where the ray along the
  heading hits the wall at distance 2.5.
\<close>

theorem rayCast_single_column_direction:
  "ray_vector (columnRay ray halfFOV 1 dirX dirY 0) = \<lparr>pt_x = NaN, pt_y = NaN\<rparr>
   \<and> cam_scene (rayCast (RayCamera2D_new \<lparr>pt_x = Num (1 / 2), pt_y = Num (1 / 2)\<rparr>
                   \<lparr>pt_x = Num 1, pt_y = Num 0\<rparr> 1 fov 15) wallMap) = [Some NoHit]
   \<and> cast \<lparr>ray_origin = \<lparr>pt_x = Num (1 / 2), pt_y = Num (1 / 2)\<rparr>,
           ray_vector = \<lparr>pt_x = Num 1, pt_y = Num 0\<rparr>\<rparr> wallMap 15
     = Found \<lparr>hit_tile = \<lparr>tile_type = 1, blocking = True, opaque = True\<rparr>,
               hit_offset = Num (1 / 2), hit_axis = ''x'', hit_distance = Num (5 / 2)\<rparr>"
proof (intro conjI)
  show "ray_vector (columnRay ray halfFOV 1 dirX dirY 0) = \<lparr>pt_x = NaN, pt_y = NaN\<rparr>"
    by (simp add: columnRay_def columnOffset_def js_shl1_def js_defs)
  show "cam_scene (rayCast (RayCamera2D_new \<lparr>pt_x = Num (1 / 2), pt_y = Num (1 / 2)\<rparr>
                   \<lparr>pt_x = Num 1, pt_y = Num 0\<rparr> 1 fov 15) wallMap) = [Some NoHit]"
    by (simp add: rayCast_def RayCamera2D_new_def Ray2D_new_def Let_def
        columnRay_def columnOffset_def js_shl1_def js_defs
        cast_def eval_nat_numeral wallMap_def)
  show "cast \<lparr>ray_origin = \<lparr>pt_x = Num (1 / 2), pt_y = Num (1 / 2)\<rparr>,
           ray_vector = \<lparr>pt_x = Num 1, pt_y = Num 0\<rparr>\<rparr> wallMap 15
     = Found \<lparr>hit_tile = \<lparr>tile_type = 1, blocking = True, opaque = True\<rparr>,
               hit_offset = Num (1 / 2), hit_axis = ''x'', hit_distance = Num (5 / 2)\<rparr>"
    by (simp add: cast_def Let_def js_defs eval_nat_numeral calcDistance_def calcOffset_def
        wallMap_def)
qed

text \<open>
  C3.  With the zero vector, \<^verbatim>\<open>sweptBoxIntersection\<close> returns the same descriptor for
  every pair of boxes: never \<^verbatim>\<open>null\<close>, with \<^verbatim>\<open>NaN\<close> in \<^verbatim>\<open>delta.y\<close>, \<^verbatim>\<open>normal.y\<close> and
  \<^verbatim>\<open>pos\<close>.  The static test \<^verbatim>\<open>boxIntersection\<close> returns \<^verbatim>\<open>null\<close> for the unit boxes centred
  at (0, 0) and (5, 5), and a finite descriptor for those centred at (0, 0) and (1, 0).
\<close>

theorem sweptBoxIntersection_zero_vector:
  "AABBCollider_sweptBoxIntersection this box \<lparr>pt_x = Num 0, pt_y = Num 0\<rparr>
     = Some \<lparr>delta = \<lparr>pt_x = Num 0, pt_y = NaN\<rparr>, normal = \<lparr>pt_x = Num 0, pt_y = NaN\<rparr>,
             pos = \<lparr>pt_x = NaN, pt_y = NaN\<rparr>, time = None\<rparr>
   \<and> AABBCollider_boxIntersection \<lparr>pt_x = Num 0, pt_y = Num 0, rX = Num 1, rY = Num 1\<rparr>
        \<lparr>pt_x = Num 5, pt_y = Num 5, rX = Num 1, rY = Num 1\<rparr> = None
   \<and> AABBCollider_boxIntersection \<lparr>pt_x = Num 0, pt_y = Num 0, rX = Num 1, rY = Num 1\<rparr>
        \<lparr>pt_x = Num 1, pt_y = Num 0, rX = Num 1, rY = Num 1\<rparr>
     = Some \<lparr>delta = \<lparr>pt_x = Num 1, pt_y = Num 0\<rparr>, normal = \<lparr>pt_x = Num 1, pt_y = Num 0\<rparr>,
             pos = \<lparr>pt_x = Num 1, pt_y = Num 0\<rparr>, time = None\<rparr>"
  by (simp add: AABBCollider_sweptBoxIntersection_def AABBCollider_boxIntersection_def
      AABBCollider_intersection_def Let_def js_defs)

text \<open>
  C4.  With the zero vector, \<^verbatim>\<open>sweptCircleIntersection\<close> returns \<^verbatim>\<open>null\<close> for every pair
  of circles: the unit vector is \<^verbatim>\<open>0 / 0\<close>, and no comparison with \<^verbatim>\<open>NaN\<close> holds.  The
  static test \<^verbatim>\<open>circleIntersection\<close> of the unit circles centred at (0, 0) and (1, 0)
  returns a descriptor with \<^verbatim>\<open>pos\<close> and \<^verbatim>\<open>normal\<close> both (1, 0).
\<close>

theorem sweptCircleIntersection_zero_vector:
  "CircleCollider_sweptCircleIntersection this circle \<lparr>pt_x = Num 0, pt_y = Num 0\<rparr> = None
   \<and> CircleCollider_circleIntersection \<lparr>pt_x = Num 0, pt_y = Num 0, radius = Num 1\<rparr>
        \<lparr>pt_x = Num 1, pt_y = Num 0, radius = Num 1\<rparr>
     = Some \<lparr>delta = \<lparr>pt_x = Num 1, pt_y = Num 0\<rparr>, normal = \<lparr>pt_x = Num 1, pt_y = Num 0\<rparr>,
             pos = \<lparr>pt_x = Num 1, pt_y = Num 0\<rparr>, time = None\<rparr>"
  by (simp add: CircleCollider_sweptCircleIntersection_def CircleCollider_vectorIntersection_def
      CircleCollider_circleIntersection_def CircleCollider_intersection_def
      magnitude_def Let_def js_defs)

text \<open>
  C5.  For a circle of positive radius and a box of positive half-extents with the same
  finite centre, \<^verbatim>\<open>CircleCollider.boxIntersection\<close> returns a descriptor whose \<^verbatim>\<open>delta\<close>,
  \<^verbatim>\<open>normal\<close> and \<^verbatim>\<open>pos\<close> are all \<^verbatim>\<open>NaN\<close>: the box test answers with a zero normal, the
  point stays on the centre, and the circle test divides zero by zero.
\<close>

theorem boxIntersection_coincident_centres:
  assumes "0 < r" and "0 < rx" and "0 < ry"
  shows "CircleCollider_boxIntersection \<lparr>pt_x = Num a, pt_y = Num b, radius = Num r\<rparr>
           \<lparr>pt_x = Num a, pt_y = Num b, rX = Num rx, rY = Num ry\<rparr>
         = Inr (Some \<lparr>delta = \<lparr>pt_x = NaN, pt_y = NaN\<rparr>,
                      normal = \<lparr>pt_x = NaN, pt_y = NaN\<rparr>,
                      pos = \<lparr>pt_x = NaN, pt_y = NaN\<rparr>, time = None\<rparr>)"
  using assms
  by (simp add: CircleCollider_boxIntersection_def AABBCollider_intersection_def
      CircleCollider_intersection_def Let_def js_defs)

theorem boxIntersection_coincident_centres_witness:
  "(0 :: real) < 1
   \<and> CircleCollider_boxIntersection \<lparr>pt_x = Num 0, pt_y = Num 0, radius = Num 1\<rparr>
        \<lparr>pt_x = Num 0, pt_y = Num 0, rX = Num 1, rY = Num 1\<rparr>
     = Inr (Some \<lparr>delta = \<lparr>pt_x = NaN, pt_y = NaN\<rparr>,
                  normal = \<lparr>pt_x = NaN, pt_y = NaN\<rparr>,
                  pos = \<lparr>pt_x = NaN, pt_y = NaN\<rparr>, time = None\<rparr>)"
proof -
  have one: "(0 :: real) < 1" by simp
  from boxIntersection_coincident_centres [OF one one one, of 0 0] one
  show ?thesis by simp
qed

text \<open>
  C6.  For the boxes with half-extents (1, 2) centred at (0, 0) and (0, 0.5), the
  penetrations are 2 in \<open>x\<close> and 3.5 in \<open>y\<close>, and \<^verbatim>\<open>boxIntersection\<close> returns a descriptor
  whose \<^verbatim>\<open>delta\<close> and \<^verbatim>\<open>normal\<close> are both (0, 0): \<^verbatim>\<open>Math.sign\<close> of the zero offset in \<open>x\<close> is
  zero.
\<close>

theorem boxIntersection_aligned_centres:
  "AABBCollider_boxIntersection \<lparr>pt_x = Num 0, pt_y = Num 0, rX = Num 1, rY = Num 2\<rparr>
     \<lparr>pt_x = Num 0, pt_y = Num (1 / 2), rX = Num 1, rY = Num 2\<rparr>
   = Some \<lparr>delta = \<lparr>pt_x = Num 0, pt_y = Num 0\<rparr>, normal = \<lparr>pt_x = Num 0, pt_y = Num 0\<rparr>,
           pos = \<lparr>pt_x = Num 0, pt_y = Num (1 / 2)\<rparr>, time = None\<rparr>"
  by (simp add: AABBCollider_boxIntersection_def AABBCollider_intersection_def Let_def js_defs)

text \<open>
  C7.  Whenever the entry time \<^verbatim>\<open>nearTime\<close> is at least 1 or the exit time \<^verbatim>\<open>farTime\<close>
  is at most 0, \<^verbatim>\<open>AABBCollider.vectorIntersection\<close> returns \<^verbatim>\<open>null\<close>, for every box,
  origin, vector and padding.  In particular, for the box centred at (5, 0) with
  half-extents (1, 4), the segment from (0, 0) along (2, 1) stops short of the box and
  returns \<^verbatim>\<open>null\<close>, while the segment along (8, 4) on the same line returns a hit at
  time 0.5.
\<close>

theorem vectorIntersection_rejects_outside_unit_interval:
  "(js_ge (nearTime this origin vector pX pY) (Num 1)
      \<or> js_le (AABBCollider_farTime this origin vector pX pY) (Num 0)
    \<longrightarrow> AABBCollider_vectorIntersection this origin vector pX pY = None)
   \<and> AABBCollider_vectorIntersection \<lparr>pt_x = Num 5, pt_y = Num 0, rX = Num 1, rY = Num 4\<rparr>
        \<lparr>pt_x = Num 0, pt_y = Num 0\<rparr> \<lparr>pt_x = Num 2, pt_y = Num 1\<rparr> (Num 0) (Num 0) = None
   \<and> AABBCollider_vectorIntersection \<lparr>pt_x = Num 5, pt_y = Num 0, rX = Num 1, rY = Num 4\<rparr>
        \<lparr>pt_x = Num 0, pt_y = Num 0\<rparr> \<lparr>pt_x = Num 8, pt_y = Num 4\<rparr> (Num 0) (Num 0)
     = Some \<lparr>delta = \<lparr>pt_x = Num (- 4), pt_y = Num (- 2)\<rparr>,
             normal = \<lparr>pt_x = Num (- 1), pt_y = Num 0\<rparr>,
             pos = \<lparr>pt_x = Num 4, pt_y = Num 2\<rparr>, time = Some (Num (1 / 2))\<rparr>"
  by (simp add: AABBCollider_vectorIntersection_def vectorHit_def slab_defs js_defs Let_def)

theorem vectorIntersection_rejects_outside_unit_interval_witness:
  "js_ge (nearTime \<lparr>pt_x = Num 5, pt_y = Num 0, rX = Num 1, rY = Num 4\<rparr>
        \<lparr>pt_x = Num 0, pt_y = Num 0\<rparr> \<lparr>pt_x = Num 2, pt_y = Num 1\<rparr> (Num 0) (Num 0)) (Num 1)
   \<and> AABBCollider_vectorIntersection \<lparr>pt_x = Num 5, pt_y = Num 0, rX = Num 1, rY = Num 4\<rparr>
        \<lparr>pt_x = Num 0, pt_y = Num 0\<rparr> \<lparr>pt_x = Num 2, pt_y = Num 1\<rparr> (Num 0) (Num 0) = None"
proof -
  have near: "js_ge (nearTime \<lparr>pt_x = Num 5, pt_y = Num 0, rX = Num 1, rY = Num 4\<rparr>
        \<lparr>pt_x = Num 0, pt_y = Num 0\<rparr> \<lparr>pt_x = Num 2, pt_y = Num 1\<rparr> (Num 0) (Num 0)) (Num 1)"
    by (simp add: slab_defs js_defs)
  with vectorIntersection_rejects_outside_unit_interval
    [of "\<lparr>pt_x = Num 5, pt_y = Num 0, rX = Num 1, rY = Num 4\<rparr>"
        "\<lparr>pt_x = Num 0, pt_y = Num 0\<rparr>" "\<lparr>pt_x = Num 2, pt_y = Num 1\<rparr>" "Num 0" "Num 0"]
  show ?thesis by blast
qed




text \<open>
  C9.  The two slab tests disagree: for the unit box centred at (0, 0), the origin
  (2, 0), the vector (1, 1) and no padding, \<^verbatim>\<open>BoundingBox.vectorIntersection\<close> (whose
  exit time is the larger of the per-axis exit times) returns a hit at time 0, and
  \<^verbatim>\<open>AABBCollider.vectorIntersection\<close> (whose exit time is the smaller) returns \<^verbatim>\<open>null\<close>.
\<close>

theorem slab_far_time_variants_disagree:
  "BoundingBox_vectorIntersection \<lparr>pt_x = Num 0, pt_y = Num 0, rX = Num 1, rY = Num 1\<rparr>
     \<lparr>pt_x = Num 2, pt_y = Num 0\<rparr> \<lparr>pt_x = Num 1, pt_y = Num 1\<rparr> (Num 0) (Num 0)
   = Some \<lparr>delta = \<lparr>pt_x = Num (- 1), pt_y = Num (- 1)\<rparr>,
           normal = \<lparr>pt_x = Num 0, pt_y = Num (- 1)\<rparr>,
           pos = \<lparr>pt_x = Num 2, pt_y = Num 0\<rparr>, time = Some (Num 0)\<rparr>
   \<and> AABBCollider_vectorIntersection \<lparr>pt_x = Num 0, pt_y = Num 0, rX = Num 1, rY = Num 1\<rparr>
       \<lparr>pt_x = Num 2, pt_y = Num 0\<rparr> \<lparr>pt_x = Num 1, pt_y = Num 1\<rparr> (Num 0) (Num 0) = None"
  by (simp add: BoundingBox_vectorIntersection_def AABBCollider_vectorIntersection_def
      vectorHit_def slab_defs js_defs Let_def)

text \<open>
  C10.  A newly constructed \<^verbatim>\<open>Ray2D\<close> has both components of its direction vector
  equal to the coordinates of the origin it was given; the \<^verbatim>\<open>vector\<close> argument does not
  reach the result.
\<close>

theorem Ray2D_new_vector_is_origin:
  "pt_x (ray_vector (Ray2D_new origin vector)) = pt_x origin
   \<and> pt_y (ray_vector (Ray2D_new origin vector)) = pt_y origin
   \<and> Ray2D_new origin vector = Ray2D_new origin vector'"
  by (simp add: Ray2D_new_def)

end
